theory Spec2Isabelle
  imports Complex_Main
begin

section \<open>Python values used by pipeline.py\<close>

text \<open>
  A Python \<open>str\<close> is a sequence of Unicode code points, so a string is a list of naturals.
  \<open>lit\<close> turns an ASCII literal of the source into that representation.
\<close>

type_synonym pystr = "nat list"

definition lit :: "string \<Rightarrow> pystr" where
  "lit s = map of_char s"

text \<open>
  The dictionaries and lists the script builds (and hands to \<open>json.dump\<close>) are dynamically
  typed. A dict keeps insertion order and its keys here are the fixed ASCII keys of the source,
  so a dict is an association list keyed by \<open>string\<close>. A Python float is taken at its exact
  value, a real number; order comparisons of floats are exact.
\<close>

datatype pyval =
    PStr pystr
  | PFloat real
  | PList "pyval list"
  | PDict "(string \<times> pyval) list"

datatype error = OSError | EOFError | KeyError | UnicodeEncodeError | SystemExit | OtherError

subsection \<open>\<open>str.isspace\<close>, \<open>str.strip\<close>, \<open>str.join\<close>\<close>

text \<open>
  \<open>str.strip()\<close> without argument removes leading and trailing whitespace, where whitespace
  is what CPython's \<open>Py_UNICODE_ISSPACE\<close> accepts.
\<close>

definition py_isspace :: "nat \<Rightarrow> bool" where
  "py_isspace c \<longleftrightarrow>
     (9 \<le> c \<and> c \<le> 13) \<or> (28 \<le> c \<and> c \<le> 32) \<or> c = 133 \<or> c = 160 \<or> c = 5760 \<or>
     (8192 \<le> c \<and> c \<le> 8202) \<or> c = 8232 \<or> c = 8233 \<or> c = 8239 \<or> c = 8287 \<or> c = 12288"

definition lstrip :: "pystr \<Rightarrow> pystr" where
  "lstrip s = dropWhile py_isspace s"

definition rstrip :: "pystr \<Rightarrow> pystr" where
  "rstrip s = rev (dropWhile py_isspace (rev s))"

definition strip :: "pystr \<Rightarrow> pystr" where
  "strip s = rstrip (lstrip s)"

fun join :: "pystr \<Rightarrow> pystr list \<Rightarrow> pystr" where
  "join sep [] = []"
| "join sep [x] = x"
| "join sep (x # y # ys) = x @ sep @ join sep (y # ys)"

section \<open>The three enrichment wrappers\<close>

subsection \<open>\<open>summarize_text\<close>\<close>

text \<open>
  The sumy parser, tokenizer and TextRank summarizer are one external collaborator: given
  the text and the sentence count it raises or returns the selected sentences, each already
  rendered by \<open>str(s)\<close>.
\<close>

type_synonym summarizer = "pystr \<Rightarrow> int \<Rightarrow> error + pystr list"

definition placeholder :: pystr where
  "placeholder = lit ''(No clear summary generated.)''"

definition summarize_text :: "summarizer \<Rightarrow> pystr \<Rightarrow> int \<Rightarrow> error + pystr" where
  "summarize_text summarizer text sentences_count =
     (case summarizer text sentences_count of
        Inl e \<Rightarrow> Inl e
      | Inr summary_sentences \<Rightarrow>
          (let summary = join (lit '' '') summary_sentences
           in Inr (if strip summary \<noteq> [] then summary else placeholder)))"

subsection \<open>\<open>extract_entities\<close>\<close>

text \<open>
  A spaCy entity span carries its surface text, its label and its character offsets; the
  loaded model maps a text to the spans of \<open>doc.ents\<close>, or raises.
\<close>

record span =
  ent_text :: pystr
  ent_label :: pystr
  start_char :: nat
  end_char :: nat

type_synonym nlp = "pystr \<Rightarrow> error + span list"

definition entity_dict :: "span \<Rightarrow> pyval" where
  "entity_dict ent = PDict [(''text'', PStr (ent_text ent)), (''label'', PStr (ent_label ent))]"

definition extract_entities :: "pystr \<Rightarrow> nlp \<Rightarrow> error + pyval list" where
  "extract_entities text nlp =
     (case nlp text of
        Inl e \<Rightarrow> Inl e
      | Inr ents \<Rightarrow> Inr (map entity_dict ents))"

subsection \<open>\<open>classify_sentiment\<close>\<close>

text \<open>
  \<open>analyzer.polarity_scores(text)\<close> raises or returns a dict from component names to floats.
  \<open>scores["compound"]\<close> raises \<open>KeyError\<close> when the key is absent.

  The thresholds are written as the decimals of the source. The float of the literal
  \<open>0.05\<close> lies just above one twentieth with no float between the two, so on floats the
  comparison with the literal and the comparison with one twentieth agree.
\<close>

type_synonym scores = "(string \<times> real) list"
type_synonym analyzer = "pystr \<Rightarrow> error + scores"

definition sentiment_label :: "real \<Rightarrow> pystr" where
  "sentiment_label compound =
     (if compound \<ge> 0.05 then lit ''positive''
      else if compound \<le> - 0.05 then lit ''negative''
      else lit ''neutral'')"

definition scores_dict :: "scores \<Rightarrow> pyval" where
  "scores_dict sc = PDict (map (\<lambda>(k, v). (k, PFloat v)) sc)"

definition classify_sentiment :: "pystr \<Rightarrow> analyzer \<Rightarrow> error + pyval" where
  "classify_sentiment text analyzer =
     (case analyzer text of
        Inl e \<Rightarrow> Inl e
      | Inr sc \<Rightarrow>
          (case map_of sc ''compound'' of
             None \<Rightarrow> Inl KeyError
           | Some compound \<Rightarrow>
               Inr (PDict [(''label'', PStr (sentiment_label compound)),
                           (''scores'', scores_dict sc)])))"

section \<open>Command line, clock and file names\<close>

text \<open>
  \<open>cli\<close> is what the user typed: for each option of the parser, the value given or nothing.
  \<open>parse_args\<close> fills in the defaults of the four \<open>add_argument\<close> calls; the default of
  \<open>--output\<close> is the empty string.
\<close>

record cli =
  cli_input :: "pystr option"
  cli_output :: "pystr option"
  cli_sentences :: "int option"
  cli_no_html :: bool

record args =
  args_input :: "pystr option"
  args_output :: pystr
  args_sentences :: int
  args_no_html :: bool

definition parse_args :: "cli \<Rightarrow> args" where
  "parse_args c =
     \<lparr>args_input = cli_input c,
      args_output = (case cli_output c of None \<Rightarrow> [] | Some v \<Rightarrow> v),
      args_sentences = (case cli_sentences c of None \<Rightarrow> 3 | Some n \<Rightarrow> n),
      args_no_html = cli_no_html c\<rparr>"

record datetime =
  year :: nat
  month :: nat
  day :: nat
  hour :: nat
  minute :: nat
  second :: nat

fun dec :: "nat \<Rightarrow> pystr" where
  "dec n = (if n < 10 then [48 + n] else dec (n div 10) @ [48 + n mod 10])"

declare dec.simps [simp del]

definition zpad :: "nat \<Rightarrow> pystr \<Rightarrow> pystr" where
  "zpad w s = replicate (w - length s) 48 @ s"

text \<open>
  \<open>strftime("%Y%m%d_%H%M%S")\<close>: zero-padded decimal fields. From the year 1000 on the
  padding of the year adds nothing.
\<close>

definition strftime :: "datetime \<Rightarrow> pystr" where
  "strftime dt =
     zpad 4 (dec (year dt)) @ zpad 2 (dec (month dt)) @ zpad 2 (dec (day dt)) @ lit ''_'' @
     zpad 2 (dec (hour dt)) @ zpad 2 (dec (minute dt)) @ zpad 2 (dec (second dt))"

text \<open>\<open>args.output or f"results_{timestamp}.json"\<close>: an empty string is falsy.\<close>

definition json_name_of :: "args \<Rightarrow> pystr \<Rightarrow> pystr" where
  "json_name_of a timestamp =
     (if args_output a \<noteq> [] then args_output a else lit ''results_'' @ timestamp @ lit ''.json'')"

definition html_name_of :: "pystr \<Rightarrow> pystr" where
  "html_name_of timestamp = lit ''report_'' @ timestamp @ lit ''.html''"

section \<open>The world the script runs in\<close>

text \<open>
  What a file holds is a sequence of pieces: literal text, the text \<open>str(v)\<close> of a value, or
  the text \<open>json.dumps\<close> produces for a value (with the \<open>ensure_ascii\<close> flag used;
  \<open>indent=2\<close> throughout). \<open>Truncated c\<close> is what is left of the text of \<open>c\<close> when the
  write that was producing it raised: some prefix of it, possibly empty. The serialiser is
  library code; \<open>json_load\<close> is its inverse on a file that consists of one serialised value.
\<close>

datatype piece = Txt pystr | StrOf pyval | JsonText bool pyval | Truncated "piece list"

type_synonym content = "piece list"


datatype event = SpacyLoad | SpacyDownload | WriteFile pystr content

text \<open>
  \<open>env\<close> is everything outside the script: the file system as seen by reads, by
  \<open>open(path, "w")\<close> and by the writes to an opened file, the console, the clock, and the
  three libraries.
  \<open>spacy_load env n\<close> is the outcome of the \<open>n\<close>-th call of \<open>spacy.load\<close> in the run
  (counted from 0) and \<open>spacy_download env\<close> the exception the download raises, if any.
  \<open>write_error env path c\<close> is the exception raised while \<open>c\<close> is written to the opened
  file \<open>path\<close> (by \<open>json.dump\<close>, by \<open>f.write\<close> or when the file is closed), if any.
  \<open>stdout_encodes env x\<close> tells whether the encoding of standard output has the code point
  \<open>x\<close>; every encoding has the ASCII code points.
\<close>

record env =
  read_text :: "pystr \<Rightarrow> error + pystr"
  stdin_lines :: "pystr list"
  now :: datetime
  spacy_load :: "nat \<Rightarrow> error + nlp"
  spacy_download :: "error option"
  sentiment_analyzer :: "error + analyzer"
  textrank :: summarizer
  open_w :: "pystr \<Rightarrow> error option"
  write_error :: "pystr \<Rightarrow> content \<Rightarrow> error option"
  stdout_encodes :: "nat \<Rightarrow> bool"

text \<open>
  \<open>world\<close> is what the run changes: the files it has written, the calls it has made to the
  model loader and the file system, in order, and the lines it has printed.
\<close>

record world =
  files :: "pystr \<rightharpoonup> content"
  events :: "event list"
  stdout :: "pystr list"

definition world0 :: world where
  "world0 = \<lparr>files = Map.empty, events = [], stdout = []\<rparr>"

type_synonym 'a prog = "world \<Rightarrow> (error + 'a) \<times> world"

definition returns :: "'a \<Rightarrow> 'a prog" where
  "returns x = (\<lambda>w. (Inr x, w))"

definition call :: "error + 'a \<Rightarrow> 'a prog" where
  "call r = (\<lambda>w. (r, w))"

definition seq :: "'a prog \<Rightarrow> ('a \<Rightarrow> 'b prog) \<Rightarrow> 'b prog" where
  "seq m f = (\<lambda>w. case m w of (Inl e, w') \<Rightarrow> (Inl e, w') | (Inr x, w') \<Rightarrow> f x w')"

text \<open>
  \<open>print(s)\<close> encodes the line for standard output (taken to be open) and raises
  \<open>UnicodeEncodeError\<close>, printing nothing, when the encoding lacks one of its code points.
\<close>

definition encodable :: "env \<Rightarrow> pystr \<Rightarrow> bool" where
  "encodable en s \<longleftrightarrow> (\<forall>x \<in> set s. x < 128 \<or> stdout_encodes en x)"

definition print :: "env \<Rightarrow> pystr \<Rightarrow> unit prog" where
  "print en s =
     (\<lambda>w. if encodable en s then (Inr (), w\<lparr>stdout := stdout w @ [s]\<rparr>)
          else (Inl UnicodeEncodeError, w))"

definition log_event :: "event \<Rightarrow> world \<Rightarrow> world" where
  "log_event ev w = w\<lparr>events := events w @ [ev]\<rparr>"

definition write_file :: "pystr \<Rightarrow> content \<Rightarrow> world \<Rightarrow> world" where
  "write_file path c w = log_event (WriteFile path c) (w\<lparr>files := (files w)(path \<mapsto> c)\<rparr>)"

section \<open>The two writers\<close>

text \<open>
  \<open>open(out_path, "w")\<close> raises when the path cannot be opened for writing, and nothing
  has happened to the file then. Otherwise it creates or empties the file, and
  \<open>json.dump\<close> writes into it: when that raises, the \<open>with\<close> block closes the file over
  what has been written so far and the exception goes on.
\<close>

definition save_json :: "env \<Rightarrow> pyval \<Rightarrow> pystr \<Rightarrow> unit prog" where
  "save_json en obj out_path =
     (\<lambda>w. case open_w en out_path of
             Some e \<Rightarrow> (Inl e, w)
           | None \<Rightarrow>
               (case write_error en out_path [JsonText False obj] of
                  Some e \<Rightarrow> (Inl e, write_file out_path [Truncated [JsonText False obj]] w)
                | None \<Rightarrow> (Inr (), write_file out_path [JsonText False obj] w)))"

definition getitem :: "pyval \<Rightarrow> string \<Rightarrow> error + pyval" where
  "getitem d k =
     (case d of
        PDict kvs \<Rightarrow> (case map_of kvs k of None \<Rightarrow> Inl KeyError | Some v \<Rightarrow> Inr v)
      | _ \<Rightarrow> Inl OtherError)"

definition and_then :: "error + 'a \<Rightarrow> ('a \<Rightarrow> error + 'b) \<Rightarrow> error + 'b" where
  "and_then r f = (case r of Inl e \<Rightarrow> Inl e | Inr x \<Rightarrow> f x)"

text \<open>A replacement field of an f-string: a \<open>str\<close> is inserted as it is.\<close>

definition fmt :: "pyval \<Rightarrow> piece" where
  "fmt v = (case v of PStr s \<Rightarrow> Txt s | _ \<Rightarrow> StrOf v)"

fun entity_rows :: "pyval list \<Rightarrow> error + content" where
  "entity_rows [] = Inr []"
| "entity_rows (e # es) =
     and_then (getitem e ''text'') (\<lambda>t.
     and_then (getitem e ''label'') (\<lambda>l.
     and_then (entity_rows es) (\<lambda>rest.
       Inr ([Txt (lit ''<tr><td>''), fmt t, Txt (lit ''</td><td>''), fmt l,
             Txt (lit ''</td></tr>'')] @ rest))))"

definition html_head :: pystr where
  \<open>html_head = lit
     (''<!doctype html>\<newline><html lang="en"><head><meta charset="utf-8">\<newline>'' @
      ''<title>Text Enrichment Report</title>\<newline><style>\<newline>'' @
      ''body { font-family: Arial, sans-serif; margin: 40px; line-height: 1.5; }\<newline>'' @
      ''pre { background:#f7f7f7; padding:12px; border-radius:6px; }\<newline>'' @
      ''.box { padding:10px; border:1px solid #ddd; border-radius:6px; margin-bottom:16px; }\<newline>'' @
      ''.entities td { padding:6px; border-bottom:1px solid #eee; }\<newline>'' @
      ''</style></head><body>\<newline><h1>Text Enrichment Report</h1>\<newline>'' @
      ''<div class="box"><h2>Summary</h2><p>'')\<close>

definition html_entities_open :: pystr where
  \<open>html_entities_open = lit
     (''</p></div>\<newline><div class="box"><h2>Named Entities</h2>\<newline>'' @
      ''<table class="entities"><tr><th>Entity</th><th>Label</th></tr>\<newline>'')\<close>

definition html_sentiment_open :: pystr where
  \<open>html_sentiment_open = lit
     (''\<newline></table></div>\<newline><div class="box"><h2>Sentiment</h2>\<newline>'' @
      ''<p><strong>Label:</strong> '')\<close>

definition html_original_open :: pystr where
  \<open>html_original_open = lit
     ''</pre></div>\<newline><div class="box"><h2>Original Text</h2><pre>''\<close>

definition html_of :: "pyval \<Rightarrow> error + content" where
  "html_of results =
     and_then (getitem results ''summary'') (\<lambda>summary.
     and_then (getitem results ''entities'') (\<lambda>entities.
     and_then (case entities of PList es \<Rightarrow> entity_rows es | _ \<Rightarrow> Inl OtherError) (\<lambda>rows.
     and_then (getitem results ''sentiment'') (\<lambda>sentiment.
     and_then (getitem sentiment ''label'') (\<lambda>label.
     and_then (getitem results ''sentiment'') (\<lambda>sentiment'.
     and_then (getitem sentiment' ''scores'') (\<lambda>sc.
     and_then (getitem results ''original_text'') (\<lambda>original_text.
       Inr ([Txt html_head, fmt summary, Txt html_entities_open] @ rows @
            [Txt html_sentiment_open, fmt label, Txt (lit ''</p>\<newline><pre>''),
             JsonText True sc, Txt html_original_open, fmt original_text,
             Txt (lit ''</pre></div>\<newline></body></html>'')])))))))))"

text \<open>
  The document is built first; then the file is opened, which creates or empties it, and
  \<open>f.write(html)\<close> fills it. A write that raises leaves what it has written.
\<close>

definition make_html_report :: "env \<Rightarrow> pyval \<Rightarrow> pystr \<Rightarrow> unit prog" where
  "make_html_report en results out_html_path =
     (\<lambda>w. case html_of results of
             Inl e \<Rightarrow> (Inl e, w)
           | Inr html \<Rightarrow>
               (case open_w en out_html_path of
                  Some e \<Rightarrow> (Inl e, w)
                | None \<Rightarrow>
                    (case write_error en out_html_path html of
                       Some e \<Rightarrow> (Inl e, write_file out_html_path [Truncated html] w)
                     | None \<Rightarrow> (Inr (), write_file out_html_path html w))))"

section \<open>\<open>main\<close>\<close>

text \<open>
  The console loop: \<open>input()\<close> takes the next line, or raises \<open>EOFError\<close> at the end of the
  input; the loop stops at the first empty or whitespace-only line.
\<close>

fun read_lines :: "pystr list \<Rightarrow> pystr list \<Rightarrow> error + pystr list" where
  "read_lines lines [] = Inl EOFError"
| "read_lines lines (line # rest) =
     (if strip line = [] then Inr lines else read_lines (lines @ [line]) rest)"

definition read_console :: "env \<Rightarrow> pystr prog" where
  "read_console en =
     seq (print en (lit ''Paste your text (end with an empty line):'')) (\<lambda>_.
     call (and_then (read_lines [] (stdin_lines en)) (\<lambda>lines.
       Inr (join (lit ''\<newline>'') lines))))"

text \<open>\<open>if args.input:\<close> is false for a missing option and for an empty path.\<close>

definition read_input :: "env \<Rightarrow> args \<Rightarrow> pystr prog" where
  "read_input en a =
     (case args_input a of
        None \<Rightarrow> read_console en
      | Some p \<Rightarrow> (if p \<noteq> [] then call (read_text en p) else read_console en))"

text \<open>
  The \<open>try\<close> around the first \<open>spacy.load\<close> catches \<open>OSError\<close> only; the handler downloads
  the model and loads again, outside any \<open>try\<close>.
\<close>

definition do_load :: "env \<Rightarrow> nat \<Rightarrow> nlp prog" where
  "do_load en n = (\<lambda>w. (spacy_load en n, log_event SpacyLoad w))"

definition do_download :: "env \<Rightarrow> unit prog" where
  "do_download en =
     (\<lambda>w. (case spacy_download en of Some e \<Rightarrow> Inl e | None \<Rightarrow> Inr (),
            log_event SpacyDownload w))"

definition load_nlp :: "env \<Rightarrow> nlp prog" where
  "load_nlp en =
     (\<lambda>w. case do_load en 0 w of
             (Inr nlp, w') \<Rightarrow> (Inr nlp, w')
           | (Inl e, w') \<Rightarrow>
               (if e = OSError then
                  seq (print en (lit ''Downloading spaCy model...'')) (\<lambda>_.
                  seq (do_download en) (\<lambda>_.
                  do_load en 1)) w'
                else (Inl e, w')))"

definition results_of :: "pystr \<Rightarrow> pyval list \<Rightarrow> pyval \<Rightarrow> pystr \<Rightarrow> pyval" where
  "results_of summary entities sentiment text =
     PDict [(''summary'', PStr summary),
            (''entities'', PList entities),
            (''sentiment'', sentiment),
            (''original_text'', PStr (strip text))]"

text \<open>The two confirmation lines; each starts with the check mark U+2705.\<close>

definition json_saved :: "pystr \<Rightarrow> pystr" where
  "json_saved json_name = [9989] @ lit '' JSON saved as '' @ json_name"

definition html_saved :: "pystr \<Rightarrow> pystr" where
  "html_saved html_name = [9989] @ lit '' HTML report saved as '' @ html_name"

definition main :: "env \<Rightarrow> cli \<Rightarrow> unit prog" where
  "main en c =
     (let a = parse_args c in
      seq (read_input en a) (\<lambda>text.
      let timestamp = strftime (now en);
          json_name = json_name_of a timestamp;
          html_name = html_name_of timestamp in
      seq (print en (lit '' Loading spaCy model...'')) (\<lambda>_.
      seq (load_nlp en) (\<lambda>nlp.
      seq (call (sentiment_analyzer en)) (\<lambda>analyzer.
      seq (print en (lit '' Summarizing...'')) (\<lambda>_.
      seq (call (summarize_text (textrank en) text (args_sentences a))) (\<lambda>summary.
      seq (print en (lit '' Extracting entities...'')) (\<lambda>_.
      seq (call (extract_entities text nlp)) (\<lambda>entities.
      seq (print en (lit '' Analyzing sentiment...'')) (\<lambda>_.
      seq (call (classify_sentiment text analyzer)) (\<lambda>sentiment.
      let results = results_of summary entities sentiment text in
      seq (save_json en results json_name) (\<lambda>_.
      seq (print en (json_saved json_name)) (\<lambda>_.
      if \<not> args_no_html a then
        seq (make_html_report en results html_name) (\<lambda>_.
        print en (html_saved html_name))
      else returns ())))))))))))))"

section \<open>The two halves of \<open>main\<close>\<close>

text \<open>
  For the proofs \<open>main\<close> is cut where \<open>results\<close> is complete: \<open>prepare\<close> is everything up
  to there, \<open>output_stage\<close> the two writers with their confirmation lines. \<open>enrich\<close> is the
  value \<open>prepare\<close> reaches, or the first exception on the way, computed without the world.
\<close>

definition prepare :: "env \<Rightarrow> args \<Rightarrow> pyval prog" where
  "prepare en a =
     seq (read_input en a) (\<lambda>text.
     seq (print en (lit '' Loading spaCy model...'')) (\<lambda>_.
     seq (load_nlp en) (\<lambda>nlp.
     seq (call (sentiment_analyzer en)) (\<lambda>analyzer.
     seq (print en (lit '' Summarizing...'')) (\<lambda>_.
     seq (call (summarize_text (textrank en) text (args_sentences a))) (\<lambda>summary.
     seq (print en (lit '' Extracting entities...'')) (\<lambda>_.
     seq (call (extract_entities text nlp)) (\<lambda>entities.
     seq (print en (lit '' Analyzing sentiment...'')) (\<lambda>_.
     seq (call (classify_sentiment text analyzer)) (\<lambda>sentiment.
     returns (results_of summary entities sentiment text)))))))))))"

definition output_stage :: "env \<Rightarrow> args \<Rightarrow> pyval \<Rightarrow> pystr \<Rightarrow> pystr \<Rightarrow> unit prog" where
  "output_stage en a results json_name html_name =
     seq (save_json en results json_name) (\<lambda>_.
     seq (print en (json_saved json_name)) (\<lambda>_.
     if \<not> args_no_html a then
       seq (make_html_report en results html_name) (\<lambda>_.
       print en (html_saved html_name))
     else returns ()))"

definition enrich :: "env \<Rightarrow> cli \<Rightarrow> error + pyval" where
  "enrich en c =
     and_then (fst (read_input en (parse_args c) world0)) (\<lambda>inp.
     and_then (fst (load_nlp en world0)) (\<lambda>nlp.
     and_then (sentiment_analyzer en) (\<lambda>analyzer.
     and_then (summarize_text (textrank en) inp (args_sentences (parse_args c))) (\<lambda>summary.
     and_then (extract_entities inp nlp) (\<lambda>entities.
     and_then (classify_sentiment inp analyzer) (\<lambda>sentiment.
       Inr (results_of summary entities sentiment inp)))))))"

section \<open>Observing a run\<close>

text \<open>The files a run has written, oldest first, read off its events.\<close>

fun written :: "event \<Rightarrow> (pystr \<times> content) list" where
  "written (WriteFile p d) = [(p, d)]"
| "written _ = []"

definition writes :: "world \<Rightarrow> (pystr \<times> content) list" where
  "writes w = concat (map written (events w))"

text \<open>The number a string of decimal digits stands for.\<close>

definition digits_value :: "pystr \<Rightarrow> nat" where
  "digits_value s = foldl (\<lambda>a x. 10 * a + (x - 48)) 0 s"


section \<open>Example environments\<close>

text \<open>
  A machine where everything works: \<open>in.txt\<close> holds one sentence with blanks around it, the
  model finds one entity, and every path can be opened for writing.
\<close>

definition example_model :: nlp where
  "example_model =
     (\<lambda>t. Inr [\<lparr>ent_text = lit ''Ann'', ent_label = lit ''PERSON'', start_char = 1, end_char = 4\<rparr>])"

definition example_env :: env where
  "example_env =
     \<lparr>read_text = (\<lambda>p. if p = lit ''in.txt'' then Inr (lit '' Ann is happy.\<newline>'') else Inl OSError),
      stdin_lines = [],
      now = \<lparr>year = 2026, month = 11, day = 4, hour = 9, minute = 5, second = 0\<rparr>,
      spacy_load = (\<lambda>n. Inr example_model),
      spacy_download = None,
      sentiment_analyzer =
        Inr (\<lambda>t. Inr [(''neg'', 0), (''neu'', 0.351), (''pos'', 0.649), (''compound'', 0.5719)]),
      textrank = (\<lambda>t n. Inr [lit ''Ann is happy.'']),
      open_w = (\<lambda>p. None),
      write_error = (\<lambda>p d. None),
      stdout_encodes = (\<lambda>x. True)\<rparr>"

definition example_cli :: cli where
  "example_cli =
     \<lparr>cli_input = Some (lit ''in.txt''), cli_output = Some (lit ''foo.json''),
      cli_sentences = None, cli_no_html = False\<rparr>"

text \<open>The same machine where only \<open>foo.json\<close> can be opened for writing.\<close>

definition env_html_unwritable :: env where
  "env_html_unwritable =
     example_env\<lparr>open_w := (\<lambda>p. if p = lit ''foo.json'' then None else Some OSError)\<rparr>"

text \<open>The model is missing at first and loads after the download; or never loads.\<close>

definition env_model_missing :: env where
  "env_model_missing =
     example_env\<lparr>spacy_load := (\<lambda>n. if n = 0 then Inl OSError else Inr example_model)\<rparr>"

definition env_model_unavailable :: env where
  "env_model_unavailable = example_env\<lparr>spacy_load := (\<lambda>n. Inl OSError)\<rparr>"

text \<open>A console that has ASCII only; a disk that fills up during every write.\<close>

definition env_ascii_stdout :: env where
  "env_ascii_stdout = example_env\<lparr>stdout_encodes := (\<lambda>x. False)\<rparr>"

definition env_disk_full :: env where
  "env_disk_full = example_env\<lparr>write_error := (\<lambda>p d. Some OSError)\<rparr>"

text \<open>The example command line with \<open>--no-html\<close>, and one on the evening of another day.\<close>

definition example_cli_no_html :: cli where
  "example_cli_no_html = example_cli\<lparr>cli_no_html := True\<rparr>"

definition env_evening :: env where
  "env_evening =
     example_env\<lparr>now := \<lparr>year = 2031, month = 2, day = 28, hour = 23, minute = 59, second = 7\<rparr>\<rparr>"

section \<open>Properties of the string helpers\<close>

lemma strip_empty_iff: "strip s = [] \<longleftrightarrow> (\<forall>c \<in> set s. py_isspace c)"
proof
  assume "strip s = []"
  then have all_rest: "\<forall>c \<in> set (dropWhile py_isspace s). py_isspace c"
    by (simp add: strip_def rstrip_def lstrip_def)
  have "dropWhile py_isspace s = []"
  proof (rule ccontr)
    assume ne: "dropWhile py_isspace s \<noteq> []"
    then have "\<not> py_isspace (hd (dropWhile py_isspace s))" by (rule hd_dropWhile)
    moreover have "hd (dropWhile py_isspace s) \<in> set (dropWhile py_isspace s)"
      using ne by simp
    ultimately show False using all_rest by blast
  qed
  then show "\<forall>c \<in> set s. py_isspace c"
    by simp
next
  assume "\<forall>c \<in> set s. py_isspace c"
  then have d: "dropWhile py_isspace s = []" by simp
  show "strip s = []"
    by (simp only: strip_def rstrip_def lstrip_def d dropWhile.simps rev.simps)
qed

lemma rev_split_while:
  "rev (dropWhile P (rev t)) @ rev (takeWhile P (rev t)) = t"
  by (metis rev_append rev_rev_ident takeWhile_dropWhile_id)

lemma strip_decomp:
  "\<exists>pre suf. s = pre @ strip s @ suf \<and> (\<forall>x \<in> set pre. py_isspace x) \<and>
              (\<forall>x \<in> set suf. py_isspace x)"
proof -
  let ?t = "dropWhile py_isspace s"
  let ?pre = "takeWhile py_isspace s"
  let ?suf = "rev (takeWhile py_isspace (rev ?t))"
  have st: "strip s = rev (dropWhile py_isspace (rev ?t))"
    by (simp only: strip_def lstrip_def rstrip_def)
  have t: "strip s @ ?suf = ?t"
    unfolding st by (rule rev_split_while)
  have "s = ?pre @ ?t" by simp
  with t have "s = ?pre @ strip s @ ?suf" by simp
  moreover have "\<forall>x \<in> set ?pre. py_isspace x" by (auto dest: set_takeWhileD)
  moreover have "\<forall>x \<in> set ?suf. py_isspace x" by (auto dest: set_takeWhileD)
  ultimately show ?thesis by blast
qed

lemma strip_ends:
  assumes "strip s \<noteq> []"
  shows "\<not> py_isspace (hd (strip s)) \<and> \<not> py_isspace (last (strip s))"
proof -
  let ?t = "dropWhile py_isspace s"
  have st: "strip s = rev (dropWhile py_isspace (rev ?t))"
    by (simp only: strip_def lstrip_def rstrip_def)
  with assms have ne: "dropWhile py_isspace (rev ?t) \<noteq> []" by simp
  then have "\<not> py_isspace (hd (dropWhile py_isspace (rev ?t)))" by (rule hd_dropWhile)
  with ne st have l: "\<not> py_isspace (last (strip s))" by (simp add: last_rev)
  have tne: "?t \<noteq> []"
  proof
    assume "?t = []"
    then have "dropWhile py_isspace (rev ?t) = []" by (simp only: rev.simps dropWhile.simps)
    with ne show False ..
  qed
  then have h: "\<not> py_isspace (hd ?t)" by (rule hd_dropWhile)
  have "strip s @ rev (takeWhile py_isspace (rev ?t)) = ?t"
    unfolding st by (rule rev_split_while)
  with assms have "hd ?t = hd (strip s)" by (metis hd_append2)
  with h l show ?thesis by simp
qed

subsection \<open>The timestamp\<close>

lemma dec_digit: "x \<in> set (dec n) \<Longrightarrow> 48 \<le> x \<and> x \<le> 57"
proof (induction n rule: dec.induct)
  case (1 n)
  show ?case
  proof (cases "n < 10")
    case True
    with "1.prems" show ?thesis by (simp add: dec.simps [of n])
  next
    case False
    with "1.prems" have "x \<in> set (dec (n div 10)) \<or> x = 48 + n mod 10"
      by (auto simp add: dec.simps [of n])
    then show ?thesis
    proof
      assume "x \<in> set (dec (n div 10))"
      with "1.IH" False show ?thesis by simp
    next
      assume "x = 48 + n mod 10"
      moreover have "n mod 10 < 10" by simp
      ultimately show ?thesis by linarith
    qed
  qed
qed

lemma dec_length_2: "n < 100 \<Longrightarrow> length (dec n) \<le> 2"
proof (cases "n < 10")
  case True
  then show ?thesis by (simp add: dec.simps [of n])
next
  case False
  assume "n < 100"
  then have "n div 10 < 10" by arith
  with False show ?thesis by (simp add: dec.simps [of n] dec.simps [of "n div 10"])
qed

lemma dec_length_4:
  assumes "1000 \<le> n" "n < 10000"
  shows "length (dec n) = 4"
proof -
  from assms have a: "\<not> n < 10" "\<not> n div 10 < 10" "\<not> n div 10 div 10 < 10"
    "n div 10 div 10 div 10 < 10" by arith+
  have "dec n = dec (n div 10 div 10 div 10) @ [48 + n div 10 div 10 mod 10] @
          [48 + n div 10 mod 10] @ [48 + n mod 10]"
    using a(1,2,3) by (simp add: dec.simps [of n] dec.simps [of "n div 10"]
        dec.simps [of "n div 10 div 10"])
  moreover have "length (dec (n div 10 div 10 div 10)) = 1"
    using a(4) by (simp add: dec.simps [of "n div 10 div 10 div 10"])
  ultimately show ?thesis by simp
qed

lemma zpad_length: "length s \<le> w \<Longrightarrow> length (zpad w s) = w"
  by (simp add: zpad_def)

lemma zpad_digit: "\<forall>x \<in> set s. 48 \<le> x \<and> x \<le> 57 \<Longrightarrow> x \<in> set (zpad w s) \<Longrightarrow> 48 \<le> x \<and> x \<le> 57"
  by (auto simp: zpad_def)

lemma digits_value_snoc: "digits_value (s @ [x]) = 10 * digits_value s + (x - 48)"
  by (simp add: digits_value_def)

lemma digits_value_dec: "digits_value (dec n) = n"
proof (induction n rule: dec.induct)
  case (1 n)
  show ?case
  proof (cases "n < 10")
    case True
    then show ?thesis by (simp add: dec.simps [of n] digits_value_def)
  next
    case False
    with "1.IH" have "digits_value (dec (n div 10)) = n div 10" by simp
    with False show ?thesis by (simp add: dec.simps [of n] digits_value_snoc)
  qed
qed

lemma digits_value_zeros: "foldl (\<lambda>a x. 10 * a + (x - 48)) 0 (replicate k 48) = (0::nat)"
  by (induction k) simp_all

lemma digits_value_zpad: "digits_value (zpad w s) = digits_value s"
  by (simp add: zpad_def digits_value_def digits_value_zeros)

lemma field_2:
  assumes "n < 100"
  shows "length (zpad 2 (dec n)) = 2 \<and> digits_value (zpad 2 (dec n)) = n \<and>
         (\<forall>x \<in> set (zpad 2 (dec n)). 48 \<le> x \<and> x \<le> 57)"
  using assms dec_length_2 [of n] zpad_digit [of "dec n" _ 2] dec_digit [of _ n]
  by (auto simp: zpad_length digits_value_zpad digits_value_dec)

lemma field_4:
  assumes "1000 \<le> n" "n < 10000"
  shows "length (zpad 4 (dec n)) = 4 \<and> digits_value (zpad 4 (dec n)) = n \<and>
         (\<forall>x \<in> set (zpad 4 (dec n)). 48 \<le> x \<and> x \<le> 57)"
  using assms dec_length_4 [of n] zpad_digit [of "dec n" _ 4] dec_digit [of _ n]
  by (auto simp: zpad_length digits_value_zpad digits_value_dec)

lemma strftime_fields:
  assumes "1000 \<le> year dt" "year dt < 10000" "month dt < 100" "day dt < 100"
    "hour dt < 100" "minute dt < 100" "second dt < 100"
  shows "\<exists>Y M D h m s.
           strftime dt = Y @ M @ D @ [95] @ h @ m @ s \<and>
           length Y = 4 \<and> length M = 2 \<and> length D = 2 \<and>
           length h = 2 \<and> length m = 2 \<and> length s = 2 \<and>
           (\<forall>x \<in> set (Y @ M @ D @ h @ m @ s). 48 \<le> x \<and> x \<le> 57) \<and>
           digits_value Y = year dt \<and> digits_value M = month dt \<and> digits_value D = day dt \<and>
           digits_value h = hour dt \<and> digits_value m = minute dt \<and> digits_value s = second dt"
proof -
  let ?Y = "zpad 4 (dec (year dt))" and ?M = "zpad 2 (dec (month dt))"
    and ?D = "zpad 2 (dec (day dt))" and ?h = "zpad 2 (dec (hour dt))"
    and ?m = "zpad 2 (dec (minute dt))" and ?s = "zpad 2 (dec (second dt))"
  note f = field_4 [OF assms(1,2)] field_2 [OF assms(3)] field_2 [OF assms(4)]
    field_2 [OF assms(5)] field_2 [OF assms(6)] field_2 [OF assms(7)]
  show ?thesis
  proof (intro exI conjI)
    show "strftime dt = ?Y @ ?M @ ?D @ [95] @ ?h @ ?m @ ?s"
      by (simp add: strftime_def lit_def)
    show "\<forall>x \<in> set (?Y @ ?M @ ?D @ ?h @ ?m @ ?s). 48 \<le> x \<and> x \<le> 57"
      using f by (simp only: set_append ball_Un) blast
  qed (use f in simp_all)
qed

subsection \<open>The placeholder\<close>

lemma placeholder_not_blank: "strip placeholder \<noteq> []"
  by (simp add: placeholder_def lit_def strip_def lstrip_def rstrip_def py_isspace_def)

lemma placeholder_text: "placeholder = lit ''(No clear summary generated.)''"
  by (simp add: placeholder_def)

section \<open>Properties of the three wrappers\<close>

text \<open>
  C2. Whenever the summarizer returns sentences whose space-joined text is empty or consists
  of whitespace only (in particular when it returns no sentence at all), \<open>summarize_text\<close>
  returns exactly the placeholder \<open>(No clear summary generated.)\<close>; and no result of
  \<open>summarize_text\<close> is the empty string, or blank.
\<close>

theorem summarize_text_placeholder:
  "(summarizer text n = Inr sents \<longrightarrow> (\<forall>c \<in> set (join (lit '' '') sents). py_isspace c) \<longrightarrow>
      summarize_text summarizer text n = Inr (lit ''(No clear summary generated.)'')) \<and>
   (summarizer text n = Inr [] \<longrightarrow>
      summarize_text summarizer text n = Inr (lit ''(No clear summary generated.)'')) \<and>
   (\<forall>s. summarize_text summarizer text n = Inr s \<longrightarrow> s \<noteq> [] \<and> strip s \<noteq> [])"
proof (intro conjI impI allI)
  assume "summarizer text n = Inr sents" "\<forall>c \<in> set (join (lit '' '') sents). py_isspace c"
  then show "summarize_text summarizer text n = Inr (lit ''(No clear summary generated.)'')"
    by (simp add: summarize_text_def strip_empty_iff placeholder_text)
next
  assume "summarizer text n = Inr []"
  then show "summarize_text summarizer text n = Inr (lit ''(No clear summary generated.)'')"
    by (simp add: summarize_text_def strip_def lstrip_def rstrip_def placeholder_text)
next
  fix s assume r: "summarize_text summarizer text n = Inr s"
  then have "strip s \<noteq> []"
    using placeholder_not_blank
    by (auto simp: summarize_text_def Let_def split: sum.splits if_splits)
  then show "strip s \<noteq> []" .
  then show "s \<noteq> []" by (auto simp: strip_def lstrip_def rstrip_def)
qed

theorem summarize_text_placeholder_witness:
  "summarize_text (\<lambda>t k. Inr []) (lit ''Hi.'') 3 = Inr (lit ''(No clear summary generated.)'') \<and>
   summarize_text (\<lambda>t k. Inr [[32], [9]]) (lit ''Hi.'') 3 = Inr (lit ''(No clear summary generated.)'') \<and>
   summarize_text (\<lambda>t k. Inr [lit ''A b.'', lit ''C.'']) (lit ''A b. C. D.'') 2 = Inr (lit ''A b. C.'')"
proof -
  have sp: "\<forall>c \<in> set (join (lit '' '') [[32], [9]]). py_isspace c"
    by (simp add: lit_def py_isspace_def)
  have a: "summarize_text (\<lambda>t k. Inr []) (lit ''Hi.'') 3 = Inr (lit ''(No clear summary generated.)'')"
    using summarize_text_placeholder [of "\<lambda>t k. Inr []" "lit ''Hi.''" 3 "[]"] by simp
  have b: "summarize_text (\<lambda>t k. Inr [[32], [9]]) (lit ''Hi.'') 3 = Inr (lit ''(No clear summary generated.)'')"
    using summarize_text_placeholder [of "\<lambda>t k. Inr [[32], [9]]" "lit ''Hi.''" 3 "[[32], [9]]"] sp by simp
  have c: "summarize_text (\<lambda>t k. Inr [lit ''A b.'', lit ''C.'']) (lit ''A b. C. D.'') 2 = Inr (lit ''A b. C.'')"
    by (simp add: summarize_text_def lit_def strip_def lstrip_def rstrip_def py_isspace_def)
  from a b c show ?thesis by blast
qed

text \<open>
  C1. For a score mapping returned by the analyzer, the label of \<open>classify_sentiment\<close> is
  decided by the compound score alone, with inclusive thresholds: at least 0.05 gives
  \<open>positive\<close>, at most -0.05 gives \<open>negative\<close>, anything strictly between gives
  \<open>neutral\<close>. The scores are returned unchanged beside the label.
\<close>

theorem classify_sentiment_thresholds:
  assumes "analyzer text = Inr sc" and "map_of sc ''compound'' = Some c"
  shows "\<exists>lbl. classify_sentiment text analyzer =
            Inr (PDict [(''label'', PStr lbl), (''scores'', scores_dict sc)]) \<and>
          (c \<ge> 0.05 \<longrightarrow> lbl = lit ''positive'') \<and>
          (c \<le> - 0.05 \<longrightarrow> lbl = lit ''negative'') \<and>
          (- 0.05 < c \<and> c < 0.05 \<longrightarrow> lbl = lit ''neutral'')"
  using assms by (simp add: classify_sentiment_def sentiment_label_def)

theorem classify_sentiment_thresholds_witness:
  "classify_sentiment (lit ''ok'') (\<lambda>t. Inr [(''neg'', 0), (''neu'', 0.5), (''pos'', 0.5), (''compound'', 0.05)]) =
     Inr (PDict [(''label'', PStr (lit ''positive'')),
                 (''scores'', scores_dict [(''neg'', 0), (''neu'', 0.5), (''pos'', 0.5), (''compound'', 0.05)])]) \<and>
   classify_sentiment (lit ''ok'') (\<lambda>t. Inr [(''neg'', 0.5), (''neu'', 0.5), (''pos'', 0), (''compound'', - 0.05)]) =
     Inr (PDict [(''label'', PStr (lit ''negative'')),
                 (''scores'', scores_dict [(''neg'', 0.5), (''neu'', 0.5), (''pos'', 0), (''compound'', - 0.05)])]) \<and>
   classify_sentiment (lit ''ok'') (\<lambda>t. Inr [(''neg'', 0), (''neu'', 1), (''pos'', 0), (''compound'', 0)]) =
     Inr (PDict [(''label'', PStr (lit ''neutral'')),
                 (''scores'', scores_dict [(''neg'', 0), (''neu'', 1), (''pos'', 0), (''compound'', 0)])])"
proof -
  have p: "classify_sentiment (lit ''ok'') (\<lambda>t. Inr [(''neg'', 0), (''neu'', 0.5), (''pos'', 0.5), (''compound'', 0.05)]) =
     Inr (PDict [(''label'', PStr (lit ''positive'')),
                 (''scores'', scores_dict [(''neg'', 0), (''neu'', 0.5), (''pos'', 0.5), (''compound'', 0.05)])])"
    using classify_sentiment_thresholds [of "\<lambda>t. Inr [(''neg'', 0), (''neu'', 0.5), (''pos'', 0.5), (''compound'', 0.05)]"
        "lit ''ok''" "[(''neg'', 0), (''neu'', 0.5), (''pos'', 0.5), (''compound'', 0.05)]" "0.05"]
    by simp
  have n: "classify_sentiment (lit ''ok'') (\<lambda>t. Inr [(''neg'', 0.5), (''neu'', 0.5), (''pos'', 0), (''compound'', - 0.05)]) =
     Inr (PDict [(''label'', PStr (lit ''negative'')),
                 (''scores'', scores_dict [(''neg'', 0.5), (''neu'', 0.5), (''pos'', 0), (''compound'', - 0.05)])])"
    using classify_sentiment_thresholds [of "\<lambda>t. Inr [(''neg'', 0.5), (''neu'', 0.5), (''pos'', 0), (''compound'', - 0.05)]"
        "lit ''ok''" "[(''neg'', 0.5), (''neu'', 0.5), (''pos'', 0), (''compound'', - 0.05)]" "- 0.05"]
    by simp
  have z: "classify_sentiment (lit ''ok'') (\<lambda>t. Inr [(''neg'', 0), (''neu'', 1), (''pos'', 0), (''compound'', 0)]) =
     Inr (PDict [(''label'', PStr (lit ''neutral'')),
                 (''scores'', scores_dict [(''neg'', 0), (''neu'', 1), (''pos'', 0), (''compound'', 0)])])"
    using classify_sentiment_thresholds [of "\<lambda>t. Inr [(''neg'', 0), (''neu'', 1), (''pos'', 0), (''compound'', 0)]"
        "lit ''ok''" "[(''neg'', 0), (''neu'', 1), (''pos'', 0), (''compound'', 0)]" "0"]
    by simp
  from p n z show ?thesis by blast
qed

text \<open>
  C8. \<open>extract_entities\<close> returns one dict per entity of the model, in the model's order
  and with duplicates kept; each dict has the two keys \<open>text\<close> and \<open>label\<close> and
  nothing of the character offsets.
\<close>

theorem extract_entities_order:
  assumes "nlp text = Inr ents"
  shows "\<exists>out. extract_entities text nlp = Inr out \<and> length out = length ents \<and>
           (\<forall>i < length ents.
              out ! i = PDict [(''text'', PStr (ent_text (ents ! i))),
                               (''label'', PStr (ent_label (ents ! i)))])"
  using assms by (simp add: extract_entities_def entity_dict_def)

theorem extract_entities_order_witness:
  "extract_entities (lit ''Bob met Al and Bob'')
     (\<lambda>t. Inr [\<lparr>ent_text = lit ''Bob'', ent_label = lit ''PERSON'', start_char = 0, end_char = 3\<rparr>,
                \<lparr>ent_text = lit ''Al'', ent_label = lit ''PERSON'', start_char = 8, end_char = 10\<rparr>,
                \<lparr>ent_text = lit ''Bob'', ent_label = lit ''PERSON'', start_char = 15, end_char = 18\<rparr>]) =
   Inr [PDict [(''text'', PStr (lit ''Bob'')), (''label'', PStr (lit ''PERSON''))],
        PDict [(''text'', PStr (lit ''Al'')), (''label'', PStr (lit ''PERSON''))],
        PDict [(''text'', PStr (lit ''Bob'')), (''label'', PStr (lit ''PERSON''))]]"
proof -
  let ?ents = "[\<lparr>ent_text = lit ''Bob'', ent_label = lit ''PERSON'', start_char = 0, end_char = 3\<rparr>,
                \<lparr>ent_text = lit ''Al'', ent_label = lit ''PERSON'', start_char = 8, end_char = 10\<rparr>,
                \<lparr>ent_text = lit ''Bob'', ent_label = lit ''PERSON'', start_char = 15, end_char = 18\<rparr>]"
  from extract_entities_order [of "\<lambda>t. Inr ?ents" "lit ''Bob met Al and Bob''" ?ents]
  obtain out where o: "extract_entities (lit ''Bob met Al and Bob'') (\<lambda>t. Inr ?ents) = Inr out"
    and len: "length out = 3"
    and nth: "\<forall>i < 3. out ! i = PDict [(''text'', PStr (ent_text (?ents ! i))),
                               (''label'', PStr (ent_label (?ents ! i)))]"
    by auto
  from nth have "out ! 0 = PDict [(''text'', PStr (lit ''Bob'')), (''label'', PStr (lit ''PERSON''))]"
    "out ! 1 = PDict [(''text'', PStr (lit ''Al'')), (''label'', PStr (lit ''PERSON''))]"
    "out ! 2 = PDict [(''text'', PStr (lit ''Bob'')), (''label'', PStr (lit ''PERSON''))]"
    by simp_all
  with len have "out = [PDict [(''text'', PStr (lit ''Bob'')), (''label'', PStr (lit ''PERSON''))],
        PDict [(''text'', PStr (lit ''Al'')), (''label'', PStr (lit ''PERSON''))],
        PDict [(''text'', PStr (lit ''Bob'')), (''label'', PStr (lit ''PERSON''))]]"
    by (auto simp: list_eq_iff_nth_eq less_Suc_eq numeral_3_eq_3 numeral_2_eq_2)
  with o show ?thesis by simp
qed

section \<open>How a run of \<open>main\<close> unfolds\<close>

subsection \<open>Printing\<close>

lemma print_ok:
  "encodable en s \<Longrightarrow> print en s w = (Inr (), w\<lparr>stdout := stdout w @ [s]\<rparr>)"
  by (simp add: print_def)

lemma print_frame:
  "print en s w = (r, w') \<Longrightarrow>
     files w' = files w \<and> events w' = events w \<and>
     (if encodable en s then r = Inr () else r = Inl UnicodeEncodeError)"
  by (auto simp: print_def split: if_splits)

lemma ascii_lines:
  "encodable en (lit ''Paste your text (end with an empty line):'')"
  "encodable en (lit '' Loading spaCy model...'')"
  "encodable en (lit ''Downloading spaCy model...'')"
  "encodable en (lit '' Summarizing...'')"
  "encodable en (lit '' Extracting entities...'')"
  "encodable en (lit '' Analyzing sentiment...'')"
  by (simp_all add: encodable_def lit_def)

lemmas print_ascii = ascii_lines [THEN print_ok]

subsection \<open>Sequencing\<close>

lemma seq_assoc: "seq (seq m f) g = seq m (\<lambda>x. seq (f x) g)"
  by (auto simp: seq_def fun_eq_iff split: sum.splits prod.splits)

lemma seq_returns: "seq (returns x) g = g x"
  by (simp add: seq_def returns_def)

lemma main_split:
  "main en c =
     seq (prepare en (parse_args c)) (\<lambda>results.
       output_stage en (parse_args c) results
         (json_name_of (parse_args c) (strftime (now en))) (html_name_of (strftime (now en))))"
  by (simp add: main_def prepare_def output_stage_def Let_def seq_assoc seq_returns)

subsection \<open>Frames\<close>

lemma read_console_frame:
  "read_console en w = (r, w') \<Longrightarrow>
     files w' = files w \<and> events w' = events w \<and> fst (read_console en world0) = r"
  by (auto simp: read_console_def seq_def print_ascii call_def split: sum.splits prod.splits)

lemma read_input_frame:
  "read_input en a w = (r, w') \<Longrightarrow>
     files w' = files w \<and> events w' = events w \<and> fst (read_input en a world0) = r"
  by (auto simp: read_input_def call_def dest: read_console_frame split: option.splits if_splits)

lemma load_nlp_frame:
  "load_nlp en w = (r, w') \<Longrightarrow>
     files w' = files w \<and> events w' = events w @ events (snd (load_nlp en world0)) \<and>
     fst (load_nlp en world0) = r"
  by (auto simp: load_nlp_def do_load_def do_download_def seq_def print_ascii log_event_def world0_def
           split: sum.splits prod.splits option.splits if_splits)

lemma prepare_frame:
  assumes "prepare en (parse_args c) w = (r, w')"
  shows "files w' = files w \<and> enrich en c = r \<and>
         (events w' = events w \<or> events w' = events w @ events (snd (load_nlp en world0))) \<and>
         (\<forall>inp. fst (read_input en (parse_args c) world0) = Inr inp \<longrightarrow>
            events w' = events w @ events (snd (load_nlp en world0)))"
  using assms
  by (auto simp: prepare_def enrich_def and_then_def seq_def print_ascii call_def returns_def
      split: sum.splits prod.splits
      dest!: read_input_frame load_nlp_frame)

subsection \<open>The model loader\<close>

lemma load_nlp_events:
  "events (snd (load_nlp en world0)) = [SpacyLoad] \<or>
   events (snd (load_nlp en world0)) = [SpacyLoad, SpacyDownload] \<or>
   events (snd (load_nlp en world0)) = [SpacyLoad, SpacyDownload, SpacyLoad]"
  by (auto simp: load_nlp_def do_load_def do_download_def seq_def print_ascii log_event_def world0_def
           split: sum.splits prod.splits option.splits if_splits)

lemma load_nlp_no_write: "concat (map written (events (snd (load_nlp en world0)))) = []"
  using load_nlp_events [of en] by auto


subsection \<open>The stages before the writers\<close>

lemma html_of_results:
  assumes "extract_entities text nlp = Inr entities"
    and "classify_sentiment text analyzer = Inr sentiment"
  shows "\<exists>H. html_of (results_of summary entities sentiment text) = Inr H"
proof -
  from assms(1) obtain ents where e: "entities = map entity_dict ents"
    by (auto simp: extract_entities_def split: sum.splits)
  have rows: "\<exists>R. entity_rows (map entity_dict ents) = Inr R"
    by (induction ents) (auto simp: and_then_def getitem_def entity_dict_def)
  from assms(2) obtain lbl sc where s: "sentiment = PDict [(''label'', lbl), (''scores'', sc)]"
    by (auto simp: classify_sentiment_def split: sum.splits option.splits)
  from rows obtain R where "entity_rows (map entity_dict ents) = Inr R" by blast
  then show ?thesis
    by (simp add: html_of_def results_of_def and_then_def getitem_def e s)
qed

lemma enrich_Inr:
  assumes "enrich en c = Inr res"
  shows "\<exists>inp summary entities sentiment.
     res = results_of summary entities sentiment inp \<and>
     fst (read_input en (parse_args c) world0) = Inr inp \<and>
     summarize_text (textrank en) inp (args_sentences (parse_args c)) = Inr summary \<and>
     (\<exists>nlp. fst (load_nlp en world0) = Inr nlp \<and> extract_entities inp nlp = Inr entities) \<and>
     (\<exists>analyzer. sentiment_analyzer en = Inr analyzer \<and>
        classify_sentiment inp analyzer = Inr sentiment)"
  using assms by (auto simp: enrich_def and_then_def split: sum.splits)

lemma enrich_html:
  assumes "enrich en c = Inr res"
  shows "\<exists>H. html_of res = Inr H"
  using enrich_Inr [OF assms] html_of_results by blast

lemma args_no_html_parse [simp]: "args_no_html (parse_args c) = cli_no_html c"
  by (simp add: parse_args_def)

lemma world0_simps [simp]: "events world0 = []" "files world0 = Map.empty"
  by (simp_all add: world0_def)

lemma main_collapse: "fst (main en c w) = r \<Longrightarrow> main en c w = (r, snd (main en c w))"
  by (metis prod.collapse)

subsection \<open>The writers\<close>

lemma output_stage_cases:
  assumes "output_stage en a res jn hn w = (r, w')" and "html_of res = Inr H"
  shows
    "(\<exists>e. open_w en jn = Some e \<and> r = Inl e \<and> files w' = files w \<and> events w' = events w)
   \<or> (open_w en jn = None \<and>
       (\<exists>e. write_error en jn [JsonText False res] = Some e \<and> r = Inl e \<and>
          files w' = (files w)(jn \<mapsto> [Truncated [JsonText False res]]) \<and>
          events w' = events w @ [WriteFile jn [Truncated [JsonText False res]]]))
   \<or> (open_w en jn = None \<and> write_error en jn [JsonText False res] = None \<and>
       ((\<not> encodable en (json_saved jn) \<and> r = Inl UnicodeEncodeError \<or>
         encodable en (json_saved jn) \<and> args_no_html a \<and> r = Inr () \<or>
         encodable en (json_saved jn) \<and> \<not> args_no_html a \<and>
           (\<exists>e. open_w en hn = Some e \<and> r = Inl e)) \<and>
        files w' = (files w)(jn \<mapsto> [JsonText False res]) \<and>
        events w' = events w @ [WriteFile jn [JsonText False res]]
      \<or> encodable en (json_saved jn) \<and> \<not> args_no_html a \<and> open_w en hn = None \<and>
        (\<exists>e. write_error en hn H = Some e \<and> r = Inl e) \<and>
        files w' = (files w)(jn \<mapsto> [JsonText False res], hn \<mapsto> [Truncated H]) \<and>
        events w' = events w @ [WriteFile jn [JsonText False res], WriteFile hn [Truncated H]]
      \<or> encodable en (json_saved jn) \<and> \<not> args_no_html a \<and> open_w en hn = None \<and>
        write_error en hn H = None \<and>
        (\<not> encodable en (html_saved hn) \<and> r = Inl UnicodeEncodeError \<or>
         encodable en (html_saved hn) \<and> r = Inr ()) \<and>
        files w' = (files w)(jn \<mapsto> [JsonText False res], hn \<mapsto> H) \<and>
        events w' = events w @ [WriteFile jn [JsonText False res], WriteFile hn H]))"
  using assms
  by (auto simp: output_stage_def seq_def save_json_def make_html_report_def print_def
        write_file_def log_event_def returns_def
      split: sum.splits prod.splits option.splits if_splits)

subsection \<open>A whole run\<close>

lemma run_outcome:
  fixes en c
  defines "r \<equiv> fst (main en c world0)" and "W \<equiv> snd (main en c world0)"
    and "jn \<equiv> json_name_of (parse_args c) (strftime (now en))"
    and "hn \<equiv> html_name_of (strftime (now en))"
  shows
    "(\<exists>e. enrich en c = Inl e \<and> r = Inl e \<and> writes W = [] \<and> files W = Map.empty)
   \<or> (\<exists>res H. enrich en c = Inr res \<and> html_of res = Inr H \<and>
        ((\<exists>e. open_w en jn = Some e \<and> r = Inl e) \<and> writes W = [] \<and> files W = Map.empty
       \<or> open_w en jn = None \<and>
          (\<exists>e. write_error en jn [JsonText False res] = Some e \<and> r = Inl e) \<and>
          writes W = [(jn, [Truncated [JsonText False res]])] \<and>
          files W = [jn \<mapsto> [Truncated [JsonText False res]]]
       \<or> open_w en jn = None \<and> write_error en jn [JsonText False res] = None \<and>
          (\<not> encodable en (json_saved jn) \<and> r = Inl UnicodeEncodeError \<or>
           encodable en (json_saved jn) \<and> cli_no_html c \<and> r = Inr () \<or>
           encodable en (json_saved jn) \<and> \<not> cli_no_html c \<and>
             (\<exists>e. open_w en hn = Some e \<and> r = Inl e)) \<and>
          writes W = [(jn, [JsonText False res])] \<and>
          files W = [jn \<mapsto> [JsonText False res]]
       \<or> open_w en jn = None \<and> write_error en jn [JsonText False res] = None \<and>
          encodable en (json_saved jn) \<and> \<not> cli_no_html c \<and> open_w en hn = None \<and>
          (\<exists>e. write_error en hn H = Some e \<and> r = Inl e) \<and>
          writes W = [(jn, [JsonText False res]), (hn, [Truncated H])] \<and>
          files W = [jn \<mapsto> [JsonText False res], hn \<mapsto> [Truncated H]]
       \<or> open_w en jn = None \<and> write_error en jn [JsonText False res] = None \<and>
          encodable en (json_saved jn) \<and> \<not> cli_no_html c \<and> open_w en hn = None \<and>
          write_error en hn H = None \<and>
          (\<not> encodable en (html_saved hn) \<and> r = Inl UnicodeEncodeError \<or>
           encodable en (html_saved hn) \<and> r = Inr ()) \<and>
          writes W = [(jn, [JsonText False res]), (hn, H)] \<and>
          files W = [jn \<mapsto> [JsonText False res], hn \<mapsto> H]))"
proof -
  obtain r0 w1 where p: "prepare en (parse_args c) world0 = (r0, w1)"
    by (cases "prepare en (parse_args c) world0") blast
  from prepare_frame [OF p] load_nlp_no_write [of en]
  have f1: "files w1 = Map.empty" and en1: "enrich en c = r0"
    and ev1: "concat (map written (events w1)) = []"
    by auto
  show ?thesis
  proof (cases r0)
    case (Inl e)
    with p have "main en c world0 = (Inl e, w1)"
      by (simp add: main_split seq_def)
    then have "r = Inl e" "W = w1" by (simp_all add: r_def W_def)
    with Inl en1 f1 ev1 show ?thesis by (simp add: writes_def)
  next
    case (Inr res)
    with en1 have er: "enrich en c = Inr res" by simp
    from enrich_html [OF er] obtain H where h: "html_of res = Inr H" by blast
    from p Inr have "main en c world0 = output_stage en (parse_args c) res jn hn w1"
      by (simp add: main_split seq_def jn_def hn_def)
    then have o: "output_stage en (parse_args c) res jn hn w1 = (r, W)"
      by (simp add: r_def W_def)
    from output_stage_cases [OF o h] er h f1 ev1 show ?thesis
      by (elim disjE conjE exE) (simp_all add: writes_def)
  qed
qed

lemma successful_run_writes:
  assumes "fst (main en c world0) = Inr ()"
  shows "\<exists>inp summary entities sentiment.
     fst (read_input en (parse_args c) world0) = Inr inp \<and>
     summarize_text (textrank en) inp (args_sentences (parse_args c)) = Inr summary \<and>
     (\<exists>nlp. fst (load_nlp en world0) = Inr nlp \<and> extract_entities inp nlp = Inr entities) \<and>
     (\<exists>analyzer. sentiment_analyzer en = Inr analyzer \<and>
        classify_sentiment inp analyzer = Inr sentiment) \<and>
     open_w en (json_name_of (parse_args c) (strftime (now en))) = None \<and>
     (cli_no_html c \<longrightarrow>
        files (snd (main en c world0)) =
          [json_name_of (parse_args c) (strftime (now en)) \<mapsto>
             [JsonText False (results_of summary entities sentiment inp)]] \<and>
        writes (snd (main en c world0)) =
          [(json_name_of (parse_args c) (strftime (now en)),
            [JsonText False (results_of summary entities sentiment inp)])]) \<and>
     (\<not> cli_no_html c \<longrightarrow>
        open_w en (html_name_of (strftime (now en))) = None \<and>
        (\<exists>H. html_of (results_of summary entities sentiment inp) = Inr H \<and>
           files (snd (main en c world0)) =
             [json_name_of (parse_args c) (strftime (now en)) \<mapsto>
                [JsonText False (results_of summary entities sentiment inp)],
              html_name_of (strftime (now en)) \<mapsto> H] \<and>
           writes (snd (main en c world0)) =
             [(json_name_of (parse_args c) (strftime (now en)),
               [JsonText False (results_of summary entities sentiment inp)]),
              (html_name_of (strftime (now en)), H)]))"
proof -
  from run_outcome [of en c] assms obtain res H where
    er: "enrich en c = Inr res" and h: "html_of res = Inr H"
    and oj: "open_w en (json_name_of (parse_args c) (strftime (now en))) = None"
    and nh: "cli_no_html c \<longrightarrow>
        files (snd (main en c world0)) =
          [json_name_of (parse_args c) (strftime (now en)) \<mapsto> [JsonText False res]] \<and>
        writes (snd (main en c world0)) =
          [(json_name_of (parse_args c) (strftime (now en)), [JsonText False res])]"
    and hh: "\<not> cli_no_html c \<longrightarrow>
        open_w en (html_name_of (strftime (now en))) = None \<and>
        files (snd (main en c world0)) =
             [json_name_of (parse_args c) (strftime (now en)) \<mapsto> [JsonText False res],
              html_name_of (strftime (now en)) \<mapsto> H] \<and>
        writes (snd (main en c world0)) =
             [(json_name_of (parse_args c) (strftime (now en)), [JsonText False res]),
              (html_name_of (strftime (now en)), H)]"
    by (elim disjE conjE exE) simp_all
  from enrich_Inr [OF er] obtain inp summary entities sentiment where
    res: "res = results_of summary entities sentiment inp"
    and st: "fst (read_input en (parse_args c) world0) = Inr inp"
      "summarize_text (textrank en) inp (args_sentences (parse_args c)) = Inr summary"
      "\<exists>nlp. fst (load_nlp en world0) = Inr nlp \<and> extract_entities inp nlp = Inr entities"
      "\<exists>analyzer. sentiment_analyzer en = Inr analyzer \<and>
        classify_sentiment inp analyzer = Inr sentiment"
    by blast
  show ?thesis
    apply (rule exI [of _ inp], rule exI [of _ summary], rule exI [of _ entities],
           rule exI [of _ sentiment])
    using st oj nh hh h unfolding res by auto
qed



section \<open>Example runs\<close>

lemmas run_defs = main_def seq_def call_def print_def encodable_def returns_def read_input_def
  read_console_def load_nlp_def do_load_def do_download_def save_json_def make_html_report_def
  write_file_def log_event_def parse_args_def Let_def summarize_text_def extract_entities_def
  classify_sentiment_def json_name_of_def html_name_of_def results_of_def json_saved_def
  html_saved_def and_then_def getitem_def entity_dict_def world0_def example_model_def html_of_def
  example_env_def example_cli_def example_cli_no_html_def env_html_unwritable_def
  env_model_missing_def env_model_unavailable_def env_ascii_stdout_def env_disk_full_def
  env_evening_def writes_def

lemma example_run_ok: "fst (main example_env example_cli world0) = Inr ()"
  by (simp add: run_defs lit_def)

lemma evening_run_ok: "fst (main env_evening example_cli world0) = Inr ()"
  by (simp add: run_defs lit_def)

lemma no_html_run_ok: "fst (main example_env example_cli_no_html world0) = Inr ()"
  by (simp add: run_defs lit_def)

lemma html_unwritable_run_fails: "fst (main env_html_unwritable example_cli world0) = Inl OSError"
  by (simp add: run_defs lit_def)

lemma ascii_stdout_run_fails:
  "fst (main env_ascii_stdout example_cli_no_html world0) = Inl UnicodeEncodeError"
  by (simp add: run_defs lit_def)


lemma example_timestamp: "strftime (now example_env) = lit ''20261104_090500''"
  by (simp add: example_env_def strftime_def zpad_def dec.simps lit_def)

lemma evening_timestamp: "strftime (now env_evening) = lit ''20310228_235907''"
  by (simp add: env_evening_def example_env_def strftime_def zpad_def dec.simps lit_def)

section \<open>Properties of a run\<close>




text \<open>
  C5. With \<open>--no-html\<close> a run writes at most one file, the JSON file (cut short only when
  its own write raises), and never an HTML report; the JSON file is complete as soon as the
  run gets through the JSON write, whatever happens to the confirmation line after it.
  Every successful run, with or without the flag, writes the JSON file first; the HTML
  report follows exactly when the flag is off.
\<close>

theorem no_html_flag:
  fixes en c
  defines "W \<equiv> snd (main en c world0)"
    and "jn \<equiv> json_name_of (parse_args c) (strftime (now en))"
    and "hn \<equiv> html_name_of (strftime (now en))"
  shows
    "(cli_no_html c \<longrightarrow>
        (\<forall>x \<in> set (writes W).
           fst x = jn \<and>
           (\<exists>v. snd x = [JsonText False v] \<or> snd x = [Truncated [JsonText False v]])) \<and>
        length (writes W) \<le> 1 \<and>
        (\<forall>res. enrich en c = Inr res \<and> open_w en jn = None \<and>
               write_error en jn [JsonText False res] = None \<longrightarrow>
           writes W = [(jn, [JsonText False res])] \<and>
           files W = [jn \<mapsto> [JsonText False res]])) \<and>
     (fst (main en c world0) = Inr () \<longrightarrow>
        (\<exists>v H. html_of v = Inr H \<and>
           writes W =
             (jn, [JsonText False v]) # (if cli_no_html c then [] else [(hn, H)])))"
  using run_outcome [of en c] unfolding W_def jn_def hn_def
  by (elim disjE conjE exE) simp_all

theorem no_html_flag_witness:
  "cli_no_html example_cli_no_html \<and>
   fst (main example_env example_cli_no_html world0) = Inr () \<and>
   map fst (writes (snd (main example_env example_cli_no_html world0))) = [lit ''foo.json''] \<and>
   fst (main env_ascii_stdout example_cli_no_html world0) = Inl UnicodeEncodeError \<and>
   map fst (writes (snd (main env_ascii_stdout example_cli_no_html world0))) = [lit ''foo.json'']"
proof -
  have f: "cli_no_html example_cli_no_html" by (simp add: example_cli_no_html_def)
  have n: "json_name_of (parse_args example_cli_no_html) (strftime (now example_env)) =
             lit ''foo.json''"
    "json_name_of (parse_args example_cli_no_html) (strftime (now env_ascii_stdout)) =
             lit ''foo.json''"
    by (simp_all add: json_name_of_def parse_args_def example_cli_def example_cli_no_html_def
          lit_def)
  from no_html_flag [of example_cli_no_html example_env] no_html_run_ok f
  obtain v where "writes (snd (main example_env example_cli_no_html world0)) =
      [(json_name_of (parse_args example_cli_no_html) (strftime (now example_env)),
        [JsonText False v])]"
    by auto
  with n have a: "map fst (writes (snd (main example_env example_cli_no_html world0))) =
      [lit ''foo.json'']" by simp
  have ne: "writes (snd (main env_ascii_stdout example_cli_no_html world0)) \<noteq> []"
    by (simp add: run_defs lit_def)
  from no_html_flag [of example_cli_no_html env_ascii_stdout] f
  have "\<forall>x \<in> set (writes (snd (main env_ascii_stdout example_cli_no_html world0))).
          fst x = lit ''foo.json''"
    and "length (writes (snd (main env_ascii_stdout example_cli_no_html world0))) \<le> 1"
    unfolding n by blast+
  with ne have b: "map fst (writes (snd (main env_ascii_stdout example_cli_no_html world0))) =
      [lit ''foo.json'']"
    by (cases "writes (snd (main env_ascii_stdout example_cli_no_html world0))") auto
  from f no_html_run_ok a ascii_stdout_run_fails b show ?thesis by blast
qed



text \<open>
  C7. In a successful run the \<open>original_text\<close> field of the JSON object is the input text
  stripped: the input is that field with only whitespace before it and after it, and the
  field neither starts nor ends with whitespace.
\<close>

theorem original_text_stripped:
  assumes "fst (main en c world0) = Inr ()"
  shows "\<exists>inp kvs rest pre suf.
           fst (read_input en (parse_args c) world0) = Inr inp \<and>
           writes (snd (main en c world0)) =
             (json_name_of (parse_args c) (strftime (now en)), [JsonText False (PDict kvs)]) # rest \<and>
           map_of kvs ''original_text'' = Some (PStr (strip inp)) \<and>
           inp = pre @ strip inp @ suf \<and>
           (\<forall>x \<in> set pre. py_isspace x) \<and> (\<forall>x \<in> set suf. py_isspace x) \<and>
           (strip inp \<noteq> [] \<longrightarrow>
              \<not> py_isspace (hd (strip inp)) \<and> \<not> py_isspace (last (strip inp)))"
proof -
  from successful_run_writes [OF assms] obtain inp summary entities sentiment where
    r: "fst (read_input en (parse_args c) world0) = Inr inp"
    and nh: "cli_no_html c \<longrightarrow>
        writes (snd (main en c world0)) =
          [(json_name_of (parse_args c) (strftime (now en)),
            [JsonText False (results_of summary entities sentiment inp)])]"
    and h: "\<not> cli_no_html c \<longrightarrow>
        (\<exists>H. writes (snd (main en c world0)) =
             [(json_name_of (parse_args c) (strftime (now en)),
               [JsonText False (results_of summary entities sentiment inp)]),
              (html_name_of (strftime (now en)), H)])"
    by blast
  let ?kvs = "[(''summary'', PStr summary), (''entities'', PList entities),
               (''sentiment'', sentiment), (''original_text'', PStr (strip inp))]"
  have res: "results_of summary entities sentiment inp = PDict ?kvs" by (simp add: results_of_def)
  have m: "map_of ?kvs ''original_text'' = Some (PStr (strip inp))" by simp
  from nh h res obtain rest where
    w: "writes (snd (main en c world0)) =
          (json_name_of (parse_args c) (strftime (now en)), [JsonText False (PDict ?kvs)]) # rest"
    by (cases "cli_no_html c") auto
  from strip_decomp [of inp] obtain pre suf where
    d: "inp = pre @ strip inp @ suf" "\<forall>x \<in> set pre. py_isspace x" "\<forall>x \<in> set suf. py_isspace x"
    by blast
  from r w m d strip_ends [of inp] show ?thesis by blast
qed

theorem original_text_stripped_witness:
  "fst (main example_env example_cli world0) = Inr () \<and>
   fst (read_input example_env (parse_args example_cli) world0) = Inr (lit '' Ann is happy.\<newline>'') \<and>
   strip (lit '' Ann is happy.\<newline>'') = lit ''Ann is happy.'' \<and>
   (\<exists>inp kvs rest pre suf.
           fst (read_input example_env (parse_args example_cli) world0) = Inr inp \<and>
           writes (snd (main example_env example_cli world0)) =
             (json_name_of (parse_args example_cli) (strftime (now example_env)),
              [JsonText False (PDict kvs)]) # rest \<and>
           map_of kvs ''original_text'' = Some (PStr (strip inp)) \<and>
           inp = pre @ strip inp @ suf \<and>
           (\<forall>x \<in> set pre. py_isspace x) \<and> (\<forall>x \<in> set suf. py_isspace x) \<and>
           (strip inp \<noteq> [] \<longrightarrow>
              \<not> py_isspace (hd (strip inp)) \<and> \<not> py_isspace (last (strip inp))))"
proof -
  have a: "fst (read_input example_env (parse_args example_cli) world0) =
             Inr (lit '' Ann is happy.\<newline>'')"
    by (simp add: run_defs lit_def)
  have b: "strip (lit '' Ann is happy.\<newline>'') = lit ''Ann is happy.''"
    by (simp add: lit_def strip_def lstrip_def rstrip_def py_isspace_def)
  from example_run_ok a b original_text_stripped [OF example_run_ok] show ?thesis by blast
qed

text \<open>
  C4, as the code has it. With an explicit \<open>--output\<close> value that is not empty, a successful
  run writes the JSON file under exactly that name, and the HTML report (when the flag
  \<open>--no-html\<close> is off) under \<open>report_<timestamp>.html\<close>, whatever the JSON name. The
  timestamp spells the clock: four digits of the year, two each of month and day, an
  underscore, two each of hour, minute and second.
\<close>

theorem explicit_output_name:
  assumes "cli_output c = Some out" and "out \<noteq> []" and "fst (main en c world0) = Inr ()"
  shows "(\<exists>v H. writes (snd (main en c world0)) =
            (out, [JsonText False v]) #
            (if cli_no_html c then []
             else [(lit ''report_'' @ strftime (now en) @ lit ''.html'', H)])) \<and>
         (1000 \<le> year (now en) \<and> year (now en) < 10000 \<and> month (now en) < 100 \<and>
          day (now en) < 100 \<and> hour (now en) < 100 \<and> minute (now en) < 100 \<and>
          second (now en) < 100 \<longrightarrow>
            (\<exists>Y M D h m s.
               strftime (now en) = Y @ M @ D @ [95] @ h @ m @ s \<and>
               length Y = 4 \<and> length M = 2 \<and> length D = 2 \<and>
               length h = 2 \<and> length m = 2 \<and> length s = 2 \<and>
               (\<forall>x \<in> set (Y @ M @ D @ h @ m @ s). 48 \<le> x \<and> x \<le> 57) \<and>
               digits_value Y = year (now en) \<and> digits_value M = month (now en) \<and>
               digits_value D = day (now en) \<and> digits_value h = hour (now en) \<and>
               digits_value m = minute (now en) \<and> digits_value s = second (now en)))"
proof
  from assms(1,2) have n: "json_name_of (parse_args c) (strftime (now en)) = out"
    by (simp add: json_name_of_def parse_args_def)
  from successful_run_writes [OF assms(3)] obtain inp summary entities sentiment where
    nh: "cli_no_html c \<longrightarrow>
        writes (snd (main en c world0)) =
          [(json_name_of (parse_args c) (strftime (now en)),
            [JsonText False (results_of summary entities sentiment inp)])]"
    and h: "\<not> cli_no_html c \<longrightarrow>
        (\<exists>H. writes (snd (main en c world0)) =
             [(json_name_of (parse_args c) (strftime (now en)),
               [JsonText False (results_of summary entities sentiment inp)]),
              (html_name_of (strftime (now en)), H)])"
    by blast
  show "\<exists>v H. writes (snd (main en c world0)) =
            (out, [JsonText False v]) #
            (if cli_no_html c then []
             else [(lit ''report_'' @ strftime (now en) @ lit ''.html'', H)])"
  proof (cases "cli_no_html c")
    case True
    with nh n show ?thesis by auto
  next
    case False
    with h n show ?thesis by (auto simp: html_name_of_def)
  qed
next
  show "1000 \<le> year (now en) \<and> year (now en) < 10000 \<and> month (now en) < 100 \<and>
          day (now en) < 100 \<and> hour (now en) < 100 \<and> minute (now en) < 100 \<and>
          second (now en) < 100 \<longrightarrow>
            (\<exists>Y M D h m s.
               strftime (now en) = Y @ M @ D @ [95] @ h @ m @ s \<and>
               length Y = 4 \<and> length M = 2 \<and> length D = 2 \<and>
               length h = 2 \<and> length m = 2 \<and> length s = 2 \<and>
               (\<forall>x \<in> set (Y @ M @ D @ h @ m @ s). 48 \<le> x \<and> x \<le> 57) \<and>
               digits_value Y = year (now en) \<and> digits_value M = month (now en) \<and>
               digits_value D = day (now en) \<and> digits_value h = hour (now en) \<and>
               digits_value m = minute (now en) \<and> digits_value s = second (now en))"
    using strftime_fields [of "now en"] by blast
qed

text \<open>
  C4 as stated fails for the explicit value \<open>""\<close>: the run succeeds and the JSON file is
  named after the timestamp, not after the value given.
\<close>

theorem explicit_empty_output:
  "cli_output (example_cli\<lparr>cli_output := Some []\<rparr>) = Some [] \<and>
   fst (main example_env (example_cli\<lparr>cli_output := Some []\<rparr>) world0) = Inr () \<and>
   map fst (writes (snd (main example_env (example_cli\<lparr>cli_output := Some []\<rparr>) world0))) =
     [lit ''results_20261104_090500.json'', lit ''report_20261104_090500.html''] \<and>
   [] \<notin> set (map fst (writes (snd (main example_env (example_cli\<lparr>cli_output := Some []\<rparr>) world0))))"
proof -
  let ?c = "example_cli\<lparr>cli_output := Some []\<rparr>"
  have ok: "fst (main example_env ?c world0) = Inr ()"
    by (simp add: run_defs lit_def)
  have "map fst (writes (snd (main example_env ?c world0))) =
     [lit ''results_'' @ strftime (now example_env) @ lit ''.json'',
      lit ''report_'' @ strftime (now example_env) @ lit ''.html'']"
    by (simp add: run_defs lit_def)
  then have names: "map fst (writes (snd (main example_env ?c world0))) =
     [lit ''results_20261104_090500.json'', lit ''report_20261104_090500.html'']"
    by (simp add: example_timestamp lit_def)
  have "[] \<notin> set (map fst (writes (snd (main example_env ?c world0))))"
    unfolding names by (simp add: lit_def)
  with ok names show ?thesis by simp
qed

theorem explicit_output_name_witness:
  "cli_output example_cli = Some (lit ''foo.json'') \<and> lit ''foo.json'' \<noteq> [] \<and>
   fst (main example_env example_cli world0) = Inr () \<and>
   map fst (writes (snd (main example_env example_cli world0))) =
     [lit ''foo.json'', lit ''report_20261104_090500.html''] \<and>
   fst (main env_evening example_cli world0) = Inr () \<and>
   map fst (writes (snd (main env_evening example_cli world0))) =
     [lit ''foo.json'', lit ''report_20310228_235907.html''] \<and>
   (\<exists>Y M D h m s.
      strftime (now env_evening) = Y @ M @ D @ [95] @ h @ m @ s \<and>
      length Y = 4 \<and> length M = 2 \<and> length D = 2 \<and>
      length h = 2 \<and> length m = 2 \<and> length s = 2 \<and>
      digits_value Y = 2031 \<and> digits_value M = 2 \<and> digits_value D = 28 \<and>
      digits_value h = 23 \<and> digits_value m = 59 \<and> digits_value s = 7)"
proof -
  have clock: "year (now env_evening) = 2031" "month (now env_evening) = 2"
    "day (now env_evening) = 28" "hour (now env_evening) = 23"
    "minute (now env_evening) = 59" "second (now env_evening) = 7"
    by (simp_all add: env_evening_def example_env_def)
  have a: "cli_output example_cli = Some (lit ''foo.json'')" by (simp add: example_cli_def)
  have b: "lit ''foo.json'' \<noteq> []" by (simp add: lit_def)
  have c: "\<not> cli_no_html example_cli" by (simp add: example_cli_def)
  from explicit_output_name [OF a b example_run_ok] c obtain v H where
    "writes (snd (main example_env example_cli world0)) =
       [(lit ''foo.json'', [JsonText False v]),
        (lit ''report_'' @ strftime (now example_env) @ lit ''.html'', H)]"
    by auto
  then have m: "map fst (writes (snd (main example_env example_cli world0))) =
     [lit ''foo.json'', lit ''report_20261104_090500.html'']"
    by (simp add: example_timestamp lit_def)
  from explicit_output_name [OF a b evening_run_ok] c obtain v' H' where
    "writes (snd (main env_evening example_cli world0)) =
       [(lit ''foo.json'', [JsonText False v']),
        (lit ''report_'' @ strftime (now env_evening) @ lit ''.html'', H')]"
    by auto
  then have e: "map fst (writes (snd (main env_evening example_cli world0))) =
     [lit ''foo.json'', lit ''report_20310228_235907.html'']"
    by (simp add: evening_timestamp lit_def)
  from explicit_output_name [OF a b evening_run_ok]
  have "\<exists>Y M D h m s.
      strftime (now env_evening) = Y @ M @ D @ [95] @ h @ m @ s \<and>
      length Y = 4 \<and> length M = 2 \<and> length D = 2 \<and>
      length h = 2 \<and> length m = 2 \<and> length s = 2 \<and>
      digits_value Y = 2031 \<and> digits_value M = 2 \<and> digits_value D = 28 \<and>
      digits_value h = 23 \<and> digits_value m = 59 \<and> digits_value s = 7"
    unfolding clock by (elim conjE impE) (simp, blast)
  with a b example_run_ok m evening_run_ok e show ?thesis by blast
qed

text \<open>
  C10. An empty \<open>--output\<close> value is the same command line as no \<open>--output\<close> at all: the
  parsed arguments and the whole run coincide, and the JSON file is named
  \<open>results_<timestamp>.json\<close>, never the empty name.
\<close>

theorem empty_output_is_default:
  "parse_args (c\<lparr>cli_output := Some []\<rparr>) = parse_args (c\<lparr>cli_output := None\<rparr>) \<and>
   main en (c\<lparr>cli_output := Some []\<rparr>) = main en (c\<lparr>cli_output := None\<rparr>) \<and>
   json_name_of (parse_args (c\<lparr>cli_output := Some []\<rparr>)) ts = lit ''results_'' @ ts @ lit ''.json'' \<and>
   json_name_of (parse_args (c\<lparr>cli_output := Some []\<rparr>)) ts \<noteq> [] \<and>
   (fst (main en (c\<lparr>cli_output := Some []\<rparr>) world0) = Inr () \<longrightarrow>
      (\<exists>J rest. writes (snd (main en (c\<lparr>cli_output := Some []\<rparr>) world0)) =
         (lit ''results_'' @ strftime (now en) @ lit ''.json'', J) # rest))"
proof -
  let ?c = "c\<lparr>cli_output := Some []\<rparr>"
  have p: "parse_args ?c = parse_args (c\<lparr>cli_output := None\<rparr>)"
    by (simp add: parse_args_def)
  have m: "main en ?c = main en (c\<lparr>cli_output := None\<rparr>)"
    by (simp add: main_def p)
  have n: "json_name_of (parse_args ?c) ts = lit ''results_'' @ ts @ lit ''.json''" for ts
    by (simp add: json_name_of_def parse_args_def)
  have ne: "json_name_of (parse_args ?c) ts \<noteq> []"
    by (simp add: n lit_def)
  have w: "fst (main en ?c world0) = Inr () \<longrightarrow>
      (\<exists>J rest. writes (snd (main en ?c world0)) =
         (lit ''results_'' @ strftime (now en) @ lit ''.json'', J) # rest)"
  proof
    assume ok: "fst (main en ?c world0) = Inr ()"
    from successful_run_writes [OF ok] obtain inp summary entities sentiment where
      nh: "cli_no_html ?c \<longrightarrow>
        writes (snd (main en ?c world0)) =
          [(json_name_of (parse_args ?c) (strftime (now en)),
            [JsonText False (results_of summary entities sentiment inp)])]"
      and h: "\<not> cli_no_html ?c \<longrightarrow>
        (\<exists>H. writes (snd (main en ?c world0)) =
             [(json_name_of (parse_args ?c) (strftime (now en)),
               [JsonText False (results_of summary entities sentiment inp)]),
              (html_name_of (strftime (now en)), H)])"
      by blast
    show "\<exists>J rest. writes (snd (main en ?c world0)) =
         (lit ''results_'' @ strftime (now en) @ lit ''.json'', J) # rest"
    proof (cases "cli_no_html ?c")
      case True
      with nh show ?thesis unfolding n by blast
    next
      case False
      with h show ?thesis unfolding n by blast
    qed
  qed
  from p m n ne w show ?thesis by blast
qed

theorem empty_output_is_default_witness:
  "fst (main example_env (example_cli\<lparr>cli_output := Some []\<rparr>) world0) = Inr () \<and>
   map fst (writes (snd (main example_env (example_cli\<lparr>cli_output := Some []\<rparr>) world0))) =
     [lit ''results_20261104_090500.json'', lit ''report_20261104_090500.html''] \<and>
   main example_env (example_cli\<lparr>cli_output := Some []\<rparr>) world0 =
     main example_env (example_cli\<lparr>cli_output := None\<rparr>) world0"
proof -
  let ?c = "example_cli\<lparr>cli_output := Some []\<rparr>"
  have ok: "fst (main example_env ?c world0) = Inr ()"
    by (simp add: run_defs lit_def)
  have names: "map fst (writes (snd (main example_env ?c world0))) =
     [lit ''results_'' @ strftime (now example_env) @ lit ''.json'',
      lit ''report_'' @ strftime (now example_env) @ lit ''.html'']"
    by (simp add: run_defs lit_def)
  from empty_output_is_default [of example_cli example_env] ok
  have "main example_env ?c world0 = main example_env (example_cli\<lparr>cli_output := None\<rparr>) world0"
    by simp
  with ok names show ?thesis by (simp add: example_timestamp lit_def)
qed



end
